theory Spec2Isabelle
  imports Main
begin

section \<open>JSON values as the panel reads them\<close>

text \<open>
  The panel (ChatKitPanel, two source variants with the same logic) only ever looks at
  values that came out of \<open>JSON.parse\<close> or out of a tool invocation's parameters. A
  value is one of the six JSON shapes; an object keeps its members as an association
  list read with \<open>map_of\<close>. A property that is absent reads as \<open>undefined\<close>, which is
  \<open>None\<close> at the type \<open>json option\<close>. Numbers are kept as integers: the panel never
  computes with a number, it only tests one for truthiness and hands it on.
\<close>

datatype json =
    JNull
  | JBool bool
  | JNum int
  | JStr string
  | JArr "json list"
  | JObj "(string \<times> json) list"

text \<open>JavaScript truthiness, as used by \<open>!payload\<close>, \<open>error &&\<close> and \<open>!clientSecret\<close>.\<close>

definition truthy :: "json option \<Rightarrow> bool" where
  "truthy v =
     (case v of
        None \<Rightarrow> False
      | Some JNull \<Rightarrow> False
      | Some (JBool b) \<Rightarrow> b
      | Some (JNum n) \<Rightarrow> n \<noteq> 0
      | Some (JStr s) \<Rightarrow> s \<noteq> []
      | Some (JArr xs) \<Rightarrow> True
      | Some (JObj kvs) \<Rightarrow> True)"

text \<open>
  Member access \<open>v.k\<close> for the keys the panel reads (\<open>error\<close>, \<open>message\<close>, \<open>details\<close>,
  \<open>client_secret\<close>): only an object can carry them; arrays, strings, numbers and
  booleans read as \<open>undefined\<close>. On \<open>null\<close> and \<open>undefined\<close> the source either returns
  before the access or uses \<open>?.\<close>, so \<open>None\<close> is the value there too.
\<close>

definition member :: "json option \<Rightarrow> string \<Rightarrow> json option" where
  "member v k = (case v of Some (JObj kvs) \<Rightarrow> map_of kvs k | _ \<Rightarrow> None)"

text \<open>\<open>typeof v === "string"\<close>, giving the string when it holds.\<close>

definition asString :: "json option \<Rightarrow> string option" where
  "asString v = (case v of Some (JStr s) \<Rightarrow> Some s | _ \<Rightarrow> None)"

text \<open>\<open>v && typeof v === "object"\<close>: objects and arrays (\<open>null\<close> is not truthy).\<close>

definition isObject :: "json option \<Rightarrow> bool" where
  "isObject v = (case v of Some (JObj kvs) \<Rightarrow> True | Some (JArr xs) \<Rightarrow> True | _ \<Rightarrow> False)"

text \<open>\<open>"k" in v\<close> for an object or array \<open>v\<close> and the keys \<open>message\<close> and \<open>error\<close>.\<close>

definition hasKey :: "string \<Rightarrow> json option \<Rightarrow> bool" where
  "hasKey k v = (case v of Some (JObj kvs) \<Rightarrow> map_of kvs k \<noteq> None | _ \<Rightarrow> False)"

section \<open>extractErrorDetail\<close>

text \<open>
  The pattern that occurs twice in the source, for \<open>error\<close> and for \<open>nestedError\<close>:
  \<open>x && typeof x === "object" && "message" in x && typeof x.message === "string"\<close>,
  giving \<open>x.message\<close>.
\<close>

definition objectMessage :: "json option \<Rightarrow> string option" where
  "objectMessage x =
     (if isObject x \<and> hasKey ''message'' x then asString (member x ''message'') else None)"

definition extractErrorDetail :: "json option \<Rightarrow> string \<Rightarrow> string" where
  "extractErrorDetail payload fallback =
     (if \<not> truthy payload then fallback
      else
        (let error = member payload ''error'' in
         (case asString error of
            Some s \<Rightarrow> s
          | None \<Rightarrow>
              (case objectMessage error of
                 Some m \<Rightarrow> m
               | None \<Rightarrow>
                   (let details = member payload ''details'' in
                    (case asString details of
                       Some s \<Rightarrow> s
                     | None \<Rightarrow>
                         (case (if isObject details \<and> hasKey ''error'' details
                                then (let nestedError = member details ''error'' in
                                      (case asString nestedError of
                                         Some s \<Rightarrow> Some s
                                       | None \<Rightarrow> objectMessage nestedError))
                                else None) of
                            Some m \<Rightarrow> m
                          | None \<Rightarrow>
                              (case asString (member payload ''message'') of
                                 Some s \<Rightarrow> s
                               | None \<Rightarrow> fallback))))))))"

text \<open>
  The same extraction in the words of the specification: an ordered list of strategies,
  each following a path of keys through nested objects and succeeding when it ends at a
  string; the first success is the message, and the fallback is used when none succeeds.
\<close>

fun follow :: "string list \<Rightarrow> json option \<Rightarrow> json option" where
  "follow [] v = v"
| "follow (k # ks) v = follow ks (member v k)"

definition stringAt :: "string list \<Rightarrow> json option \<Rightarrow> string option" where
  "stringAt path v = asString (follow path v)"

definition errorStrategies :: "(json option \<Rightarrow> string option) list" where
  "errorStrategies =
     [stringAt [''error''],
      stringAt [''error'', ''message''],
      stringAt [''details''],
      stringAt [''details'', ''error''],
      stringAt [''details'', ''error'', ''message''],
      stringAt [''message'']]"

fun firstMatch :: "('a \<Rightarrow> 'b option) list \<Rightarrow> 'a \<Rightarrow> 'b option" where
  "firstMatch [] v = None"
| "firstMatch (f # fs) v = (case f v of Some r \<Rightarrow> Some r | None \<Rightarrow> firstMatch fs v)"

definition strategyDetail :: "json option \<Rightarrow> string \<Rightarrow> string" where
  "strategyDetail payload fallback =
     (case firstMatch errorStrategies payload of Some m \<Rightarrow> m | None \<Rightarrow> fallback)"

section \<open>The panel's state\<close>

record ErrorState =
  script :: "string option"
  session :: "string option"
  integration :: "string option"
  retryable :: bool

definition createInitialErrors :: ErrorState where
  "createInitialErrors =
     \<lparr>script = None, session = None, integration = None, retryable = False\<rparr>"

text \<open>
  \<open>Partial<ErrorState>\<close>: each field is either absent from the update (\<open>None\<close>) or
  carries the new value of the field.
\<close>

record ErrorUpdate =
  upd_script :: "string option option"
  upd_session :: "string option option"
  upd_integration :: "string option option"
  upd_retryable :: "bool option"

definition noUpdate :: ErrorUpdate where
  "noUpdate =
     \<lparr>upd_script = None, upd_session = None, upd_integration = None, upd_retryable = None\<rparr>"

text \<open>The spread \<open>{ ...current, ...updates }\<close>.\<close>

definition mergeErrors :: "ErrorState \<Rightarrow> ErrorUpdate \<Rightarrow> ErrorState" where
  "mergeErrors current updates =
     \<lparr>script = (case upd_script updates of None \<Rightarrow> script current | Some v \<Rightarrow> v),
      session = (case upd_session updates of None \<Rightarrow> session current | Some v \<Rightarrow> v),
      integration =
        (case upd_integration updates of None \<Rightarrow> integration current | Some v \<Rightarrow> v),
      retryable = (case upd_retryable updates of None \<Rightarrow> retryable current | Some v \<Rightarrow> v)\<rparr>"

datatype ScriptStatus = pending | ready | error

datatype ColorScheme = light | dark

record FactAction =
  factId :: string
  factText :: string

text \<open>
  What is thrown or rejected: an \<open>Error\<close> instance with its message, or any other
  value (\<open>error instanceof Error\<close> is false for it).
\<close>

datatype thrown = Error string | NotAnError

text \<open>
  One record holds the component's hooks (\<open>useState\<close>, \<open>useRef\<close>) and, below them,
  the part of the world the panel acts on: whether the custom element
  \<open>openai-chatkit\<close> is registered, whether the two window listeners of the readiness
  effect are attached, with which value of \<open>scriptStatus\<close> that effect last ran
  (\<open>None\<close> while no run of it is in force), whether its timer is armed and with which
  delay in milliseconds it was set, the POST requests issued (endpoint and workflow id), the actions relayed to \<open>onWidgetAction\<close>, the schemes
  passed to \<open>onThemeRequest\<close>, the number of \<open>onResponseEnd\<close> calls, and the first
  argument of every \<open>console.error\<close> call. Calls of \<open>console.info\<close> and
  \<open>console.debug\<close> are left out. The widget instance key is a JavaScript number that
  only ever counts remounts; it is a natural number here. React drops the state
  updates of an unmounted component; the model applies them, which shows only in the
  handlers that the source does not guard by \<open>isMountedRef\<close>.
\<close>

record panel =
  processedFacts :: "string set"
  errors :: ErrorState
  isInitializingSession :: bool
  isMounted :: bool
  scriptStatus :: ScriptStatus
  widgetInstanceKey :: nat
  registered :: bool
  listening :: bool
  effectStatus :: "ScriptStatus option"
  timerArmed :: bool
  timerDelay :: nat
  fetches :: "(string \<times> string) list"
  relayed :: "FactAction list"
  themeRequests :: "ColorScheme list"
  responseEnds :: nat
  errorLog :: "string list"

text \<open>
  The constants of \<open>@/lib/config\<close>, which is not among the sources, are parameters,
  together with \<open>isBrowser\<close> (\<open>typeof window !== "undefined"\<close>).
\<close>

record config =
  WORKFLOW_ID :: string
  CREATE_SESSION_ENDPOINT :: string
  isBrowser :: bool

definition setErrorState :: "ErrorUpdate \<Rightarrow> panel \<Rightarrow> panel" where
  "setErrorState updates s = s\<lparr>errors := mergeErrors (errors s) updates\<rparr>"

definition consoleError :: "string \<Rightarrow> panel \<Rightarrow> panel" where
  "consoleError msg s = s\<lparr>errorLog := errorLog s @ [msg]\<rparr>"

text \<open>The values of the hooks at the first render; the world starts with nothing done.\<close>

definition initialPanel :: "config \<Rightarrow> bool \<Rightarrow> panel" where
  "initialPanel cfg reg =
     \<lparr>processedFacts = {},
      errors = createInitialErrors,
      isInitializingSession = True,
      isMounted = True,
      scriptStatus = (if isBrowser cfg \<and> reg then ready else pending),
      widgetInstanceKey = 0,
      registered = reg,
      listening = False,
      effectStatus = None,
      timerArmed = False,
      timerDelay = 0,
      fetches = [],
      relayed = [],
      themeRequests = [],
      responseEnds = 0,
      errorLog = []\<rparr>"

section \<open>Script readiness\<close>

definition handleLoaded :: "panel \<Rightarrow> panel" where
  "handleLoaded s =
     (if \<not> isMounted s then s
      else setErrorState (noUpdate\<lparr>upd_script := Some None\<rparr>) (s\<lparr>scriptStatus := ready\<rparr>))"

text \<open>
  \<open>detail\<close> is the event's detail already turned into text by the template literal;
  \<open>None\<close> is a nullish detail, replaced by \<open>"unknown error"\<close>.
\<close>

definition handleError :: "string option \<Rightarrow> panel \<Rightarrow> panel" where
  "handleError detail s =
     (let s1 = consoleError ''Failed to load chatkit.js for some reason'' s in
      if \<not> isMounted s1 then s1
      else
        let s2 = s1\<lparr>scriptStatus := error\<rparr>;
            d = (case detail of None \<Rightarrow> ''unknown error'' | Some t \<Rightarrow> t);
            s3 = setErrorState
                   (noUpdate\<lparr>upd_script := Some (Some (''Error: '' @ d)),
                             upd_retryable := Some False\<rparr>) s2
        in s3\<lparr>isInitializingSession := False\<rparr>)"

definition unavailableMessage :: string where
  "unavailableMessage =
     ''ChatKit web component is unavailable. Verify that the script URL is reachable.''"

text \<open>
  The readiness effect, run after the cleanup of its previous run (which removes the
  listeners and clears the timer). The run is tied to the value of \<open>scriptStatus\<close> of
  the render it belongs to. In a browser it attaches the two listeners; an element that
  is registered counts as loaded, otherwise a pending script arms the timer with a
  delay of 5000 ms.
\<close>

definition readinessEffect :: "config \<Rightarrow> panel \<Rightarrow> panel" where
  "readinessEffect cfg s =
     (let s0 = s\<lparr>listening := False, timerArmed := False,
                 effectStatus := Some (scriptStatus s)\<rparr> in
      if \<not> isBrowser cfg then s0
      else
        (let s1 = s0\<lparr>listening := True\<rparr> in
         if registered s1 then handleLoaded s1
         else if scriptStatus s1 = pending then s1\<lparr>timerArmed := True, timerDelay := 5000\<rparr>
         else s1))"

text \<open>
  The effect depends on \<open>scriptStatus\<close>: once a render with another value of it is
  committed, React runs the cleanup and the effect again. This happens after the
  handler that changed the status has returned, so it is a separate step, and the
  state in between, with the handler's status and the old listeners and timer, is a
  state of the panel.
\<close>

definition effectRerun :: "config \<Rightarrow> panel \<Rightarrow> panel" where
  "effectRerun cfg s =
     (case effectStatus s of
        None \<Rightarrow> s
      | Some d \<Rightarrow> (if scriptStatus s = d then s else readinessEffect cfg s))"

text \<open>The callback of \<open>window.setTimeout(..., 5000)\<close>.\<close>

definition timeoutCallback :: "panel \<Rightarrow> panel" where
  "timeoutCallback s =
     (let s0 = s\<lparr>timerArmed := False\<rparr> in
      if \<not> registered s0 then handleError (Some unavailableMessage) s0 else s0)"

section \<open>Workflow configuration\<close>

text \<open>\<open>Boolean(WORKFLOW_ID && !WORKFLOW_ID.startsWith("wf_replace"))\<close>\<close>

definition startsWith :: "string \<Rightarrow> string \<Rightarrow> bool" where
  "startsWith s p = (take (length p) s = p)"

definition isWorkflowConfigured :: "config \<Rightarrow> bool" where
  "isWorkflowConfigured cfg =
     (WORKFLOW_ID cfg \<noteq> [] \<and> \<not> startsWith (WORKFLOW_ID cfg) ''wf_replace'')"

definition configurationMessage :: string where
  "configurationMessage = ''Set NEXT_PUBLIC_CHATKIT_WORKFLOW_ID in your .env.local file.''"

text \<open>The effect that reports a missing configuration after the first render.\<close>

definition configurationEffect :: "config \<Rightarrow> panel \<Rightarrow> panel" where
  "configurationEffect cfg s =
     (if \<not> isWorkflowConfigured cfg \<and> isMounted s
      then (setErrorState
              (noUpdate\<lparr>upd_session := Some (Some configurationMessage),
                        upd_retryable := Some False\<rparr>) s)
           \<lparr>isInitializingSession := False\<rparr>
      else s)"

section \<open>handleResetChat\<close>

definition handleResetChat :: "config \<Rightarrow> panel \<Rightarrow> panel" where
  "handleResetChat cfg s =
     (let s1 = s\<lparr>processedFacts := {}\<rparr>;
          s2 = (if isBrowser cfg
                then s1\<lparr>scriptStatus := (if registered s1 then ready else pending)\<rparr>
                else s1);
          s3 = s2\<lparr>isInitializingSession := True\<rparr>;
          s4 = s3\<lparr>errors := createInitialErrors\<rparr>
      in s4\<lparr>widgetInstanceKey := widgetInstanceKey s4 + 1\<rparr>)"

section \<open>getClientSecret\<close>

text \<open>
  The answer of the network: \<open>fetch\<close> rejects, or it resolves to a response whose
  \<open>text()\<close> rejects or gives the raw body. \<open>ok\<close> is what the Fetch standard makes of
  the status: a status from 200 to 299.
\<close>

record response =
  status :: nat
  statusText :: string
  bodyText :: "thrown + string"

definition ok :: "response \<Rightarrow> bool" where
  "ok r = (200 \<le> status r \<and> status r \<le> 299)"

datatype fetchOutcome = Rejected thrown | Responded response

text \<open>\<open>!currentSecret\<close> for \<open>currentSecret: string | null\<close>.\<close>

definition noSecret :: "string option \<Rightarrow> bool" where
  "noSecret currentSecret = (case currentSecret of None \<Rightarrow> True | Some t \<Rightarrow> t = [])"

definition missingSecretMessage :: string where
  "missingSecretMessage = ''Missing client secret in response''"

text \<open>
  The part before the first \<open>await\<close>: the configuration gate, the state reset, and the
  POST. \<open>Inl\<close> is what the call throws without having sent anything; \<open>Inr ()\<close> means
  the request is under way.
\<close>

definition getClientSecretBegin ::
  "config \<Rightarrow> string option \<Rightarrow> panel \<Rightarrow> (thrown + unit) \<times> panel" where
  "getClientSecretBegin cfg currentSecret s =
     (if \<not> isWorkflowConfigured cfg
      then
        (let detail = configurationMessage;
             s1 = (if isMounted s
                   then (setErrorState
                           (noUpdate\<lparr>upd_session := Some (Some detail),
                                     upd_retryable := Some False\<rparr>) s)
                        \<lparr>isInitializingSession := False\<rparr>
                   else s)
         in (Inl (Error detail), s1))
      else
        (let s1 = (if isMounted s
                   then
                     (let s0 = (if noSecret currentSecret
                                then s\<lparr>isInitializingSession := True\<rparr> else s)
                      in setErrorState
                           (noUpdate\<lparr>upd_session := Some None,
                                     upd_integration := Some None,
                                     upd_retryable := Some False\<rparr>) s0)
                   else s);
             s2 = s1\<lparr>fetches := fetches s1 @ [(CREATE_SESSION_ENDPOINT cfg, WORKFLOW_ID cfg)]\<rparr>
         in (Inr (), s2)))"

text \<open>
  The body of the \<open>try\<close> after the request was sent. \<open>parse\<close> is \<open>JSON.parse\<close>, with
  \<open>None\<close> for the \<open>SyntaxError\<close> it throws. The credential is returned as the value
  found in the body: the cast to \<open>string\<close> checks nothing at run time.
\<close>

definition parseBody :: "(string \<Rightarrow> json option) \<Rightarrow> string \<Rightarrow> panel \<Rightarrow> json \<times> panel" where
  "parseBody parse raw s =
     (if raw = [] then (JObj [], s)
      else case parse raw of
             Some d \<Rightarrow> (d, s)
           | None \<Rightarrow> (JObj [], consoleError ''Failed to parse create-session response'' s))"

definition tryBody ::
  "(string \<Rightarrow> json option) \<Rightarrow> fetchOutcome \<Rightarrow> panel \<Rightarrow> (thrown + json) \<times> panel" where
  "tryBody parse outcome s =
     (case outcome of
        Rejected e \<Rightarrow> (Inl e, s)
      | Responded r \<Rightarrow>
          (case bodyText r of
             Inl e \<Rightarrow> (Inl e, s)
           | Inr raw \<Rightarrow>
               (case parseBody parse raw s of
                  (data, s1) \<Rightarrow>
                    if \<not> ok r
                    then
                      (let detail = extractErrorDetail (Some data) (statusText r)
                       in (Inl (Error detail),
                           consoleError ''Create session request failed'' s1))
                    else
                      (let clientSecret = member (Some data) ''client_secret'' in
                       if \<not> truthy clientSecret
                       then (Inl (Error missingSecretMessage), s1)
                       else
                         (case clientSecret of
                            None \<Rightarrow> (Inl (Error missingSecretMessage), s1)
                          | Some v \<Rightarrow>
                              (Inr v,
                               if isMounted s1
                               then setErrorState
                                      (noUpdate\<lparr>upd_session := Some None,
                                                upd_integration := Some None\<rparr>) s1
                               else s1))))))"

text \<open>The \<open>catch\<close> block: it records the message and throws an \<open>Error\<close> again.\<close>

definition catchBlock :: "thrown \<Rightarrow> panel \<Rightarrow> thrown \<times> panel" where
  "catchBlock e s =
     (let s1 = consoleError ''Failed to create ChatKit session'' s;
          detail = (case e of Error m \<Rightarrow> m | NotAnError \<Rightarrow> ''Unable to start ChatKit session.'');
          s2 = (if isMounted s1
                then setErrorState
                       (noUpdate\<lparr>upd_session := Some (Some detail),
                                 upd_retryable := Some False\<rparr>) s1
                else s1)
      in ((case e of Error m \<Rightarrow> Error m | NotAnError \<Rightarrow> Error detail), s2))"

definition finallyBlock :: "string option \<Rightarrow> panel \<Rightarrow> panel" where
  "finallyBlock currentSecret s =
     (if isMounted s \<and> noSecret currentSecret
      then s\<lparr>isInitializingSession := False\<rparr> else s)"

text \<open>
  Everything after the request was sent. The source reads and writes the state only
  after both \<open>await\<close>s, so this continuation runs on the state as it is when the body
  has arrived.
\<close>

definition getClientSecretResume ::
  "(string \<Rightarrow> json option) \<Rightarrow> string option \<Rightarrow> fetchOutcome \<Rightarrow> panel
     \<Rightarrow> (thrown + json) \<times> panel" where
  "getClientSecretResume parse currentSecret outcome s =
     (case tryBody parse outcome s of
        (Inr v, s1) \<Rightarrow> (Inr v, finallyBlock currentSecret s1)
      | (Inl e, s1) \<Rightarrow>
          (case catchBlock e s1 of
             (e', s2) \<Rightarrow> (Inl e', finallyBlock currentSecret s2)))"

text \<open>The whole call when nothing else happens while the request is under way.\<close>

definition getClientSecret ::
  "config \<Rightarrow> (string \<Rightarrow> json option) \<Rightarrow> string option \<Rightarrow> fetchOutcome \<Rightarrow> panel
     \<Rightarrow> (thrown + json) \<times> panel" where
  "getClientSecret cfg parse currentSecret outcome s =
     (case getClientSecretBegin cfg currentSecret s of
        (Inl e, s1) \<Rightarrow> (Inl e, s1)
      | (Inr u, s1) \<Rightarrow> getClientSecretResume parse currentSecret outcome s1)"

section \<open>Client tools and the other widget callbacks\<close>

text \<open>
  An invocation carries a name and a \<open>Record<string, unknown>\<close> of parameters.
  \<open>String(v ?? "")\<close> leaves a string as it is and makes \<open>null\<close> and \<open>undefined\<close>
  the empty string; what it makes of any other value is the platform's conversion
  \<open>str\<close>, a parameter.
\<close>

record invocation =
  name :: string
  params :: "(string \<times> json) list"

definition stringOrEmpty :: "(json \<Rightarrow> string) \<Rightarrow> json option \<Rightarrow> string" where
  "stringOrEmpty str v =
     (case v of
        None \<Rightarrow> []
      | Some JNull \<Rightarrow> []
      | Some (JStr t) \<Rightarrow> t
      | Some w \<Rightarrow> str w)"

text \<open>
  \<open>text.replace(/\s+/g, " ").trim()\<close>. A string of the model is a sequence of code
  units below 256; among them the class \<open>\s\<close> and the characters \<open>trim\<close> removes
  are tab, line feed, vertical tab, form feed, carriage return, space and the
  no-break space.
\<close>

definition isSpace :: "char \<Rightarrow> bool" where
  "isSpace c = (of_char c \<in> {9, 10, 11, 12, 13, 32, 160 :: nat})"

fun collapseSpaces :: "bool \<Rightarrow> string \<Rightarrow> string" where
  "collapseSpaces inRun [] = []"
| "collapseSpaces inRun (c # cs) =
     (if isSpace c
      then (if inRun then collapseSpaces True cs else CHR '' '' # collapseSpaces True cs)
      else c # collapseSpaces False cs)"

definition trim :: "string \<Rightarrow> string" where
  "trim t = rev (dropWhile isSpace (rev (dropWhile isSpace t)))"

definition normalizeText :: "string \<Rightarrow> string" where
  "normalizeText t = trim (collapseSpaces False t)"

text \<open>The result is the \<open>success\<close> field of the acknowledgment.\<close>

definition onClientTool :: "(json \<Rightarrow> string) \<Rightarrow> invocation \<Rightarrow> panel \<Rightarrow> bool \<times> panel" where
  "onClientTool str call s =
     (if name call = ''switch_theme''
      then
        (let requested = map_of (params call) ''theme'' in
         if requested = Some (JStr ''light'')
         then (True, s\<lparr>themeRequests := themeRequests s @ [light]\<rparr>)
         else if requested = Some (JStr ''dark'')
         then (True, s\<lparr>themeRequests := themeRequests s @ [dark]\<rparr>)
         else (False, s))
      else if name call = ''record_fact''
      then
        (let ident = stringOrEmpty str (map_of (params call) ''fact_id'');
             txt = stringOrEmpty str (map_of (params call) ''fact_text'')
         in if ident = [] \<or> ident \<in> processedFacts s
            then (True, s)
            else
              (True,
               s\<lparr>processedFacts := insert ident (processedFacts s),
                 relayed := relayed s @ [\<lparr>factId = ident, factText = normalizeText txt\<rparr>]\<rparr>))
      else (False, s))"

definition onResponseEnd :: "panel \<Rightarrow> panel" where
  "onResponseEnd s = s\<lparr>responseEnds := responseEnds s + 1\<rparr>"

definition onResponseStart :: "panel \<Rightarrow> panel" where
  "onResponseStart s =
     setErrorState (noUpdate\<lparr>upd_integration := Some None, upd_retryable := Some False\<rparr>) s"

definition onThreadChange :: "panel \<Rightarrow> panel" where
  "onThreadChange s = s\<lparr>processedFacts := {}\<rparr>"

definition onError :: "panel \<Rightarrow> panel" where
  "onError s = consoleError ''ChatKit error'' s"

section \<open>Which error is shown\<close>

text \<open>\<open>??\<close> passes over \<open>null\<close> only: an empty string counts as present.\<close>

definition activeError :: "ErrorState \<Rightarrow> string option" where
  "activeError e = (case session e of Some m \<Rightarrow> Some m | None \<Rightarrow> integration e)"

definition blockingError :: "ErrorState \<Rightarrow> string option" where
  "blockingError e = (case script e of Some m \<Rightarrow> Some m | None \<Rightarrow> activeError e)"

text \<open>
  The \<open>onRetry\<close> property of the overlay: \<open>True\<close> when \<open>handleResetChat\<close> is passed,
  \<open>False\<close> when it is \<open>null\<close>.
\<close>

definition onRetry :: "panel \<Rightarrow> bool" where
  "onRetry s =
     ((case blockingError (errors s) of None \<Rightarrow> False | Some m \<Rightarrow> m \<noteq> [])
      \<and> retryable (errors s))"

section \<open>The panel as a transition system\<close>

datatype event =
    Mount
  | Unmount
  | ElementDefined
  | ScriptLoadedEvent
  | ScriptErrorEvent "string option"
  | EffectRun
  | TimerFires
  | ResetChat
  | SecretRequested "string option"
  | SecretAnswered "string option" fetchOutcome
  | ClientTool invocation
  | ResponseStart
  | ResponseEnd
  | ThreadChange
  | WidgetError

text \<open>
  \<open>Mount\<close> runs the effects of a mount in their order; \<open>Unmount\<close> runs the cleanups
  (the flag, the listeners, the timer); \<open>ElementDefined\<close> is the hosted script
  registering the custom element; \<open>EffectRun\<close> is the readiness effect running again
  after a render with a changed script status. The two window events are handled only
  while the listeners are attached, and the timer fires only while it is armed. Every
  handler is a step of its own.
\<close>

definition step ::
  "config \<Rightarrow> (string \<Rightarrow> json option) \<Rightarrow> (json \<Rightarrow> string) \<Rightarrow> event \<Rightarrow> panel \<Rightarrow> panel" where
  "step cfg parse str ev s =
     (case ev of
        Mount \<Rightarrow> configurationEffect cfg (readinessEffect cfg s)
      | Unmount \<Rightarrow>
          s\<lparr>isMounted := False, listening := False, effectStatus := None,
            timerArmed := False\<rparr>
      | ElementDefined \<Rightarrow> s\<lparr>registered := True\<rparr>
      | ScriptLoadedEvent \<Rightarrow> (if listening s then handleLoaded s else s)
      | ScriptErrorEvent d \<Rightarrow> (if listening s then handleError d s else s)
      | EffectRun \<Rightarrow> effectRerun cfg s
      | TimerFires \<Rightarrow> (if timerArmed s then timeoutCallback s else s)
      | ResetChat \<Rightarrow> handleResetChat cfg s
      | SecretRequested cur \<Rightarrow> snd (getClientSecretBegin cfg cur s)
      | SecretAnswered cur outcome \<Rightarrow> snd (getClientSecretResume parse cur outcome s)
      | ClientTool call \<Rightarrow> snd (onClientTool str call s)
      | ResponseStart \<Rightarrow> onResponseStart s
      | ResponseEnd \<Rightarrow> onResponseEnd s
      | ThreadChange \<Rightarrow> onThreadChange s
      | WidgetError \<Rightarrow> onError s)"

fun run ::
  "config \<Rightarrow> (string \<Rightarrow> json option) \<Rightarrow> (json \<Rightarrow> string) \<Rightarrow> event list \<Rightarrow> panel \<Rightarrow> panel" where
  "run cfg parse str [] s = s"
| "run cfg parse str (ev # evs) s = run cfg parse str evs (step cfg parse str ev s)"

inductive reachable ::
  "config \<Rightarrow> (string \<Rightarrow> json option) \<Rightarrow> (json \<Rightarrow> string) \<Rightarrow> panel \<Rightarrow> bool"
  for cfg :: config and parse :: "string \<Rightarrow> json option" and str :: "json \<Rightarrow> string" where
  reachable_initial: "reachable cfg parse str (initialPanel cfg reg)"
| reachable_step: "reachable cfg parse str s \<Longrightarrow> reachable cfg parse str (step cfg parse str ev s)"

text \<open>
  Two events need something to have happened before: the reset is reached only through
  the \<open>onRetry\<close> property of the overlay, and an answer needs a request that was sent.
  A sequence of events is feasible from a state when each event is enabled in the state
  in which it occurs.
\<close>

definition enabled :: "panel \<Rightarrow> event \<Rightarrow> bool" where
  "enabled s ev =
     (case ev of
        ResetChat \<Rightarrow> onRetry s
      | SecretAnswered cur outcome \<Rightarrow> fetches s \<noteq> []
      | _ \<Rightarrow> True)"

fun feasible ::
  "config \<Rightarrow> (string \<Rightarrow> json option) \<Rightarrow> (json \<Rightarrow> string) \<Rightarrow> event list \<Rightarrow> panel \<Rightarrow> bool" where
  "feasible cfg parse str [] s = True"
| "feasible cfg parse str (ev # evs) s =
     (enabled s ev \<and> feasible cfg parse str evs (step cfg parse str ev s))"

section \<open>The other variant of the panel\<close>

text \<open>
  The repository holds a second copy of the panel component with different markup,
  colours and display strings. Its functions are embedded here from that file, under
  the same names with the suffix \<open>_v1\<close>; the hooks, the records and the elementary
  operations on JSON values and on the error record are shared.
\<close>

definition objectMessage_v1 :: "json option \<Rightarrow> string option" where
  "objectMessage_v1 x =
     (if isObject x \<and> hasKey ''message'' x then asString (member x ''message'') else None)"

definition extractErrorDetail_v1 :: "json option \<Rightarrow> string \<Rightarrow> string" where
  "extractErrorDetail_v1 payload fallback =
     (if \<not> truthy payload then fallback
      else
        (let error = member payload ''error'' in
         (case asString error of
            Some s \<Rightarrow> s
          | None \<Rightarrow>
              (case objectMessage_v1 error of
                 Some m \<Rightarrow> m
               | None \<Rightarrow>
                   (let details = member payload ''details'' in
                    (case asString details of
                       Some s \<Rightarrow> s
                     | None \<Rightarrow>
                         (case (if isObject details \<and> hasKey ''error'' details
                                then (let nestedError = member details ''error'' in
                                      (case asString nestedError of
                                         Some s \<Rightarrow> Some s
                                       | None \<Rightarrow> objectMessage_v1 nestedError))
                                else None) of
                            Some m \<Rightarrow> m
                          | None \<Rightarrow>
                              (case asString (member payload ''message'') of
                                 Some s \<Rightarrow> s
                               | None \<Rightarrow> fallback))))))))"

definition handleResetChat_v1 :: "config \<Rightarrow> panel \<Rightarrow> panel" where
  "handleResetChat_v1 cfg s =
     (let s1 = s\<lparr>processedFacts := {}\<rparr>;
          s2 = (if isBrowser cfg
                then s1\<lparr>scriptStatus := (if registered s1 then ready else pending)\<rparr>
                else s1);
          s3 = s2\<lparr>isInitializingSession := True\<rparr>;
          s4 = s3\<lparr>errors := createInitialErrors\<rparr>
      in s4\<lparr>widgetInstanceKey := widgetInstanceKey s4 + 1\<rparr>)"

definition getClientSecretBegin_v1 ::
  "config \<Rightarrow> string option \<Rightarrow> panel \<Rightarrow> (thrown + unit) \<times> panel" where
  "getClientSecretBegin_v1 cfg currentSecret s =
     (if \<not> isWorkflowConfigured cfg
      then
        (let detail = configurationMessage;
             s1 = (if isMounted s
                   then (setErrorState
                           (noUpdate\<lparr>upd_session := Some (Some detail),
                                     upd_retryable := Some False\<rparr>) s)
                        \<lparr>isInitializingSession := False\<rparr>
                   else s)
         in (Inl (Error detail), s1))
      else
        (let s1 = (if isMounted s
                   then
                     (let s0 = (if noSecret currentSecret
                                then s\<lparr>isInitializingSession := True\<rparr> else s)
                      in setErrorState
                           (noUpdate\<lparr>upd_session := Some None,
                                     upd_integration := Some None,
                                     upd_retryable := Some False\<rparr>) s0)
                   else s);
             s2 = s1\<lparr>fetches := fetches s1 @ [(CREATE_SESSION_ENDPOINT cfg, WORKFLOW_ID cfg)]\<rparr>
         in (Inr (), s2)))"

definition parseBody_v1 :: "(string \<Rightarrow> json option) \<Rightarrow> string \<Rightarrow> panel \<Rightarrow> json \<times> panel" where
  "parseBody_v1 parse raw s =
     (if raw = [] then (JObj [], s)
      else case parse raw of
             Some d \<Rightarrow> (d, s)
           | None \<Rightarrow> (JObj [], consoleError ''Failed to parse create-session response'' s))"

definition tryBody_v1 ::
  "(string \<Rightarrow> json option) \<Rightarrow> fetchOutcome \<Rightarrow> panel \<Rightarrow> (thrown + json) \<times> panel" where
  "tryBody_v1 parse outcome s =
     (case outcome of
        Rejected e \<Rightarrow> (Inl e, s)
      | Responded r \<Rightarrow>
          (case bodyText r of
             Inl e \<Rightarrow> (Inl e, s)
           | Inr raw \<Rightarrow>
               (case parseBody_v1 parse raw s of
                  (data, s1) \<Rightarrow>
                    if \<not> ok r
                    then
                      (let detail = extractErrorDetail_v1 (Some data) (statusText r)
                       in (Inl (Error detail),
                           consoleError ''Create session request failed'' s1))
                    else
                      (let clientSecret = member (Some data) ''client_secret'' in
                       if \<not> truthy clientSecret
                       then (Inl (Error missingSecretMessage), s1)
                       else
                         (case clientSecret of
                            None \<Rightarrow> (Inl (Error missingSecretMessage), s1)
                          | Some v \<Rightarrow>
                              (Inr v,
                               if isMounted s1
                               then setErrorState
                                      (noUpdate\<lparr>upd_session := Some None,
                                                upd_integration := Some None\<rparr>) s1
                               else s1))))))"

definition catchBlock_v1 :: "thrown \<Rightarrow> panel \<Rightarrow> thrown \<times> panel" where
  "catchBlock_v1 e s =
     (let s1 = consoleError ''Failed to create ChatKit session'' s;
          detail = (case e of Error m \<Rightarrow> m | NotAnError \<Rightarrow> ''Unable to start ChatKit session.'');
          s2 = (if isMounted s1
                then setErrorState
                       (noUpdate\<lparr>upd_session := Some (Some detail),
                                 upd_retryable := Some False\<rparr>) s1
                else s1)
      in ((case e of Error m \<Rightarrow> Error m | NotAnError \<Rightarrow> Error detail), s2))"

definition finallyBlock_v1 :: "string option \<Rightarrow> panel \<Rightarrow> panel" where
  "finallyBlock_v1 currentSecret s =
     (if isMounted s \<and> noSecret currentSecret
      then s\<lparr>isInitializingSession := False\<rparr> else s)"

definition getClientSecretResume_v1 ::
  "(string \<Rightarrow> json option) \<Rightarrow> string option \<Rightarrow> fetchOutcome \<Rightarrow> panel
     \<Rightarrow> (thrown + json) \<times> panel" where
  "getClientSecretResume_v1 parse currentSecret outcome s =
     (case tryBody_v1 parse outcome s of
        (Inr v, s1) \<Rightarrow> (Inr v, finallyBlock_v1 currentSecret s1)
      | (Inl e, s1) \<Rightarrow>
          (case catchBlock_v1 e s1 of
             (e', s2) \<Rightarrow> (Inl e', finallyBlock_v1 currentSecret s2)))"

definition getClientSecret_v1 ::
  "config \<Rightarrow> (string \<Rightarrow> json option) \<Rightarrow> string option \<Rightarrow> fetchOutcome \<Rightarrow> panel
     \<Rightarrow> (thrown + json) \<times> panel" where
  "getClientSecret_v1 cfg parse currentSecret outcome s =
     (case getClientSecretBegin_v1 cfg currentSecret s of
        (Inl e, s1) \<Rightarrow> (Inl e, s1)
      | (Inr u, s1) \<Rightarrow> getClientSecretResume_v1 parse currentSecret outcome s1)"

definition onClientTool_v1 :: "(json \<Rightarrow> string) \<Rightarrow> invocation \<Rightarrow> panel \<Rightarrow> bool \<times> panel" where
  "onClientTool_v1 str call s =
     (if name call = ''switch_theme''
      then
        (let requested = map_of (params call) ''theme'' in
         if requested = Some (JStr ''light'')
         then (True, s\<lparr>themeRequests := themeRequests s @ [light]\<rparr>)
         else if requested = Some (JStr ''dark'')
         then (True, s\<lparr>themeRequests := themeRequests s @ [dark]\<rparr>)
         else (False, s))
      else if name call = ''record_fact''
      then
        (let ident = stringOrEmpty str (map_of (params call) ''fact_id'');
             txt = stringOrEmpty str (map_of (params call) ''fact_text'')
         in if ident = [] \<or> ident \<in> processedFacts s
            then (True, s)
            else
              (True,
               s\<lparr>processedFacts := insert ident (processedFacts s),
                 relayed := relayed s @ [\<lparr>factId = ident, factText = normalizeText txt\<rparr>]\<rparr>))
      else (False, s))"

definition onThreadChange_v1 :: "panel \<Rightarrow> panel" where
  "onThreadChange_v1 s = s\<lparr>processedFacts := {}\<rparr>"

definition activeError_v1 :: "ErrorState \<Rightarrow> string option" where
  "activeError_v1 e = (case session e of Some m \<Rightarrow> Some m | None \<Rightarrow> integration e)"

definition blockingError_v1 :: "ErrorState \<Rightarrow> string option" where
  "blockingError_v1 e = (case script e of Some m \<Rightarrow> Some m | None \<Rightarrow> activeError_v1 e)"

section \<open>Sample data\<close>

text \<open>
  The payload that the parsing block of \<open>getClientSecret\<close> leaves in \<open>data\<close>: the
  empty object for an empty body and for a body that does not parse.
\<close>

definition payloadOf :: "(string \<Rightarrow> json option) \<Rightarrow> string \<Rightarrow> json" where
  "payloadOf parse raw = (case (if raw = [] then None else parse raw) of Some d \<Rightarrow> d | None \<Rightarrow> JObj [])"

text \<open>
  A configured and an unconfigured setup, and a stand-in for \<open>JSON.parse\<close> that knows
  the bodies named in the specification's testable properties and rejects any other
  text; they serve as concrete inputs below.
\<close>

definition sampleConfig :: config where
  "sampleConfig =
     \<lparr>WORKFLOW_ID = ''wf_68df4b13b3588190a09d19288d4610ec'',
      CREATE_SESSION_ENDPOINT = ''/api/create-session'',
      isBrowser = True\<rparr>"

definition placeholderConfig :: config where
  "placeholderConfig = sampleConfig\<lparr>WORKFLOW_ID := ''wf_replace_with_your_workflow_id''\<rparr>"

definition sampleParse :: "string \<Rightarrow> json option" where
  \<open>sampleParse raw =
     (if raw = ''{"error":{"message":"quota exceeded"}}''
      then Some (JObj [(''error'', JObj [(''message'', JStr ''quota exceeded'')])])
      else if raw = ''{"details":{"error":"bad workflow"}}''
      then Some (JObj [(''details'', JObj [(''error'', JStr ''bad workflow'')])])
      else if raw = ''{"client_secret":"sk_abc"}''
      then Some (JObj [(''client_secret'', JStr ''sk_abc'')])
      else if raw = ''{"client_secret":""}''
      then Some (JObj [(''client_secret'', JStr [])])
      else if raw = ''{}''
      then Some (JObj [])
      else None)\<close>

text \<open>A \<open>record_fact\<close> invocation with untidy white space in its text.\<close>

definition sampleFact :: invocation where
  "sampleFact =
     \<lparr>name = ''record_fact'',
      params = [(''fact_id'', JStr ''fact-1''), (''fact_text'', JStr ''  likes   tea '')]\<rparr>"

text \<open>A stand-in for the conversion of a value that is not a string to text.\<close>

definition sampleText :: "json \<Rightarrow> string" where
  "sampleText v = ''[object Object]''"

section \<open>Auxiliary facts\<close>

lemma member_simps [simp]:
  "member None k = None" "member (Some JNull) k = None" "member (Some (JBool b)) k = None"
  "member (Some (JNum n)) k = None" "member (Some (JStr t)) k = None"
  "member (Some (JArr xs)) k = None" "member (Some (JObj kvs)) k = map_of kvs k"
  by (simp_all add: member_def)

lemma asString_None [simp]: "asString None = None"
  by (simp add: asString_def)

lemma follow_None [simp]: "follow ks None = None"
  by (induction ks) simp_all

lemma objectMessage_path: "objectMessage x = asString (member x ''message'')"
proof (cases x)
  case None
  then show ?thesis by (simp add: objectMessage_def)
next
  case (Some j)
  then show ?thesis
    by (cases j) (simp_all add: objectMessage_def isObject_def hasKey_def)
qed

lemma nested_path:
  "(if isObject d \<and> hasKey ''error'' d
    then (case asString (member d ''error'') of
            Some s \<Rightarrow> Some s
          | None \<Rightarrow> asString (member (member d ''error'') ''message''))
    else None)
   = (case asString (member d ''error'') of
        Some s \<Rightarrow> Some s
      | None \<Rightarrow> asString (member (member d ''error'') ''message''))"
proof (cases d)
  case None
  then show ?thesis by (simp add: isObject_def)
next
  case (Some j)
  then show ?thesis
    by (cases j) (auto simp: isObject_def hasKey_def)
qed

lemma strategyDetail_unfold:
  "strategyDetail p fb =
     (case asString (member p ''error'') of
        Some s \<Rightarrow> s
      | None \<Rightarrow>
         (case asString (member (member p ''error'') ''message'') of
            Some m \<Rightarrow> m
          | None \<Rightarrow>
             (case asString (member p ''details'') of
                Some s \<Rightarrow> s
              | None \<Rightarrow>
                 (case (case asString (member (member p ''details'') ''error'') of
                          Some s \<Rightarrow> Some s
                        | None \<Rightarrow> asString (member (member (member p ''details'') ''error'') ''message'')) of
                    Some m \<Rightarrow> m
                  | None \<Rightarrow>
                     (case asString (member p ''message'') of
                        Some s \<Rightarrow> s
                      | None \<Rightarrow> fb)))))"
  by (simp add: strategyDetail_def errorStrategies_def stringAt_def split: option.splits)

lemma extract_is_strategy: "extractErrorDetail p fb = strategyDetail p fb"
proof (cases "truthy p")
  case True
  then show ?thesis
    by (simp only: extractErrorDetail_def Let_def nested_path objectMessage_path
          strategyDetail_unfold if_False simp_thms)
next
  case False
  have m: "member p k = None" for k
  proof (cases p)
    case None
    then show ?thesis by simp
  next
    case (Some j)
    with False show ?thesis by (cases j) (simp_all add: truthy_def)
  qed
  from False show ?thesis
    unfolding strategyDetail_unfold by (simp add: extractErrorDetail_def m)
qed


lemma configured_sample: "isWorkflowConfigured sampleConfig"
  by (simp add: isWorkflowConfigured_def sampleConfig_def startsWith_def)

lemma unconfigured_placeholder: "\<not> isWorkflowConfigured placeholderConfig"
  by (simp add: isWorkflowConfigured_def placeholderConfig_def sampleConfig_def startsWith_def)

lemma fst_parseBody: "fst (parseBody parse raw s) = payloadOf parse raw"
  by (simp add: parseBody_def payloadOf_def split: option.splits)

lemma fst_tryBody:
  "bodyText r = Inr raw \<Longrightarrow>
   fst (tryBody parse (Responded r) s) =
     (if \<not> ok r then Inl (Error (extractErrorDetail (Some (payloadOf parse raw)) (statusText r)))
      else if \<not> truthy (member (Some (payloadOf parse raw)) ''client_secret'')
      then Inl (Error missingSecretMessage)
      else (case member (Some (payloadOf parse raw)) ''client_secret'' of
              None \<Rightarrow> Inl (Error missingSecretMessage)
            | Some v \<Rightarrow> Inr v))"
proof -
  assume body: "bodyText r = Inr raw"
  obtain s1 where pb: "parseBody parse raw s = (payloadOf parse raw, s1)"
    using fst_parseBody [of parse raw s] by (cases "parseBody parse raw s") simp
  show ?thesis
    by (simp add: tryBody_def Let_def body pb split: option.splits)
qed

lemma fst_resume:
  "fst (getClientSecretResume parse cur outcome s) =
     (case fst (tryBody parse outcome s) of
        Inr v \<Rightarrow> Inr v
      | Inl e \<Rightarrow> Inl (case e of Error m \<Rightarrow> Error m
                     | NotAnError \<Rightarrow> Error ''Unable to start ChatKit session.''))"
  by (simp add: getClientSecretResume_def catchBlock_def Let_def
        split: prod.splits sum.splits thrown.splits)

lemma fst_getClientSecret_configured:
  "isWorkflowConfigured cfg \<Longrightarrow>
   fst (getClientSecret cfg parse cur outcome s) =
   fst (getClientSecretResume parse cur outcome (snd (getClientSecretBegin cfg cur s)))"
  by (simp add: getClientSecret_def getClientSecretBegin_def Let_def)

lemma fst_getClientSecret_responded:
  assumes "isWorkflowConfigured cfg" and "bodyText r = Inr raw"
  shows "fst (getClientSecret cfg parse cur (Responded r) s) =
     (if \<not> ok r then Inl (Error (extractErrorDetail (Some (payloadOf parse raw)) (statusText r)))
      else if \<not> truthy (member (Some (payloadOf parse raw)) ''client_secret'')
      then Inl (Error missingSecretMessage)
      else (case member (Some (payloadOf parse raw)) ''client_secret'' of
              None \<Rightarrow> Inl (Error missingSecretMessage)
            | Some v \<Rightarrow> Inr v))"
  by (simp add: fst_getClientSecret_configured [OF assms(1)] fst_resume fst_tryBody [OF assms(2)]
        split: option.splits)

lemma errorLog_resume_parse_failure:
  assumes "bodyText r = Inr raw" and "raw \<noteq> []" and "parse raw = None"
  shows "''Failed to parse create-session response''
           \<in> set (errorLog (snd (getClientSecretResume parse cur (Responded r) s)))"
  using assms
  by (simp add: getClientSecretResume_def tryBody_def parseBody_def catchBlock_def
        finallyBlock_def consoleError_def setErrorState_def Let_def member_def truthy_def)

lemma snd_getClientSecret_configured:
  "isWorkflowConfigured cfg \<Longrightarrow>
   snd (getClientSecret cfg parse cur outcome s) =
   snd (getClientSecretResume parse cur outcome (snd (getClientSecretBegin cfg cur s)))"
  by (simp add: getClientSecret_def getClientSecretBegin_def Let_def)

lemma retryable_setErrorState:
  "retryable (errors (setErrorState u s)) =
     (case upd_retryable u of None \<Rightarrow> retryable (errors s) | Some v \<Rightarrow> v)"
  by (simp add: setErrorState_def mergeErrors_def)

lemma retryable_handleLoaded: "retryable (errors (handleLoaded s)) = retryable (errors s)"
  by (simp add: handleLoaded_def retryable_setErrorState noUpdate_def)

lemma retryable_handleError:
  "\<not> retryable (errors s) \<Longrightarrow> \<not> retryable (errors (handleError d s))"
  by (simp add: handleError_def Let_def consoleError_def retryable_setErrorState noUpdate_def)

lemma retryable_readinessEffect:
  "retryable (errors (readinessEffect cfg s)) = retryable (errors s)"
  by (simp add: readinessEffect_def Let_def retryable_handleLoaded)

lemma retryable_effectRerun:
  "retryable (errors (effectRerun cfg s)) = retryable (errors s)"
  by (simp add: effectRerun_def retryable_readinessEffect split: option.splits)

lemma retryable_timeoutCallback:
  "\<not> retryable (errors s) \<Longrightarrow> \<not> retryable (errors (timeoutCallback s))"
  by (simp add: timeoutCallback_def Let_def retryable_handleError)

lemma retryable_configurationEffect:
  "\<not> retryable (errors s) \<Longrightarrow> \<not> retryable (errors (configurationEffect cfg s))"
  by (simp add: configurationEffect_def retryable_setErrorState noUpdate_def)

lemma retryable_handleResetChat: "\<not> retryable (errors (handleResetChat cfg s))"
  by (simp add: handleResetChat_def Let_def createInitialErrors_def)

lemma retryable_begin:
  "\<not> retryable (errors s) \<Longrightarrow> \<not> retryable (errors (snd (getClientSecretBegin cfg cur s)))"
  by (simp add: getClientSecretBegin_def Let_def retryable_setErrorState noUpdate_def)

lemma retryable_parseBody:
  "retryable (errors (snd (parseBody parse raw s))) = retryable (errors s)"
  by (simp add: parseBody_def consoleError_def split: option.splits)

lemma retryable_tryBody:
  "retryable (errors (snd (tryBody parse outcome s))) = retryable (errors s)"
proof (cases outcome)
  case (Rejected e)
  then show ?thesis by (simp add: tryBody_def)
next
  case (Responded r)
  show ?thesis
  proof (cases "bodyText r")
    case (Inl e)
    with Responded show ?thesis by (simp add: tryBody_def)
  next
    case (Inr raw)
    obtain d s1 where pb: "parseBody parse raw s = (d, s1)"
      by (cases "parseBody parse raw s")
    then have "retryable (errors s1) = retryable (errors s)"
      using retryable_parseBody [of parse raw s] by simp
    with Responded Inr pb show ?thesis
      by (simp add: tryBody_def Let_def consoleError_def retryable_setErrorState noUpdate_def
            split: option.splits)
  qed
qed

lemma retryable_catchBlock:
  "\<not> retryable (errors s) \<Longrightarrow> \<not> retryable (errors (snd (catchBlock e s)))"
  by (simp add: catchBlock_def Let_def consoleError_def retryable_setErrorState noUpdate_def)

lemma retryable_finallyBlock:
  "retryable (errors (finallyBlock cur s)) = retryable (errors s)"
  by (simp add: finallyBlock_def)

lemma retryable_resume:
  assumes "\<not> retryable (errors s)"
  shows "\<not> retryable (errors (snd (getClientSecretResume parse cur outcome s)))"
proof -
  obtain res s1 where tb: "tryBody parse outcome s = (res, s1)"
    by (cases "tryBody parse outcome s")
  then have s1: "\<not> retryable (errors s1)"
    using retryable_tryBody [of parse outcome s] assms by simp
  show ?thesis
  proof (cases res)
    case (Inr v)
    with tb s1 show ?thesis
      by (simp add: getClientSecretResume_def retryable_finallyBlock)
  next
    case (Inl e)
    obtain e' s2 where cb: "catchBlock e s1 = (e', s2)"
      by (cases "catchBlock e s1")
    then have "\<not> retryable (errors s2)"
      using retryable_catchBlock [OF s1, of e] by simp
    with tb Inl cb show ?thesis
      by (simp add: getClientSecretResume_def retryable_finallyBlock)
  qed
qed

lemma retryable_onClientTool:
  "retryable (errors (snd (onClientTool str call s))) = retryable (errors s)"
  by (simp add: onClientTool_def Let_def)

lemma retryable_step:
  "\<not> retryable (errors s) \<Longrightarrow> \<not> retryable (errors (step cfg parse str ev s))"
  by (cases ev)
     (simp_all add: step_def retryable_effectRerun retryable_readinessEffect
        retryable_configurationEffect retryable_handleLoaded retryable_handleError
        retryable_timeoutCallback retryable_handleResetChat retryable_begin retryable_resume
        retryable_onClientTool onResponseStart_def onResponseEnd_def onThreadChange_def
        onError_def consoleError_def retryable_setErrorState noUpdate_def)

lemma retryable_reachable:
  "reachable cfg parse str s \<Longrightarrow> \<not> retryable (errors s)"
proof (induction rule: reachable.induct)
  case (reachable_initial reg)
  show ?case by (simp add: initialPanel_def createInitialErrors_def)
next
  case (reachable_step s ev)
  then show ?case by (simp add: retryable_step)
qed

lemma facts_setErrorState:
  "processedFacts (setErrorState u s) = processedFacts s \<and> relayed (setErrorState u s) = relayed s"
  by (simp add: setErrorState_def)

lemma facts_handleLoaded:
  "processedFacts (handleLoaded s) = processedFacts s \<and> relayed (handleLoaded s) = relayed s"
  by (simp add: handleLoaded_def facts_setErrorState)

lemma facts_handleError:
  "processedFacts (handleError d s) = processedFacts s \<and> relayed (handleError d s) = relayed s"
  by (simp add: handleError_def Let_def consoleError_def facts_setErrorState)

lemma facts_readinessEffect:
  "processedFacts (readinessEffect cfg s) = processedFacts s
   \<and> relayed (readinessEffect cfg s) = relayed s"
  by (simp add: readinessEffect_def Let_def facts_handleLoaded)

lemma facts_effectRerun:
  "processedFacts (effectRerun cfg s) = processedFacts s
   \<and> relayed (effectRerun cfg s) = relayed s"
  by (simp add: effectRerun_def facts_readinessEffect split: option.splits)

lemma facts_timeoutCallback:
  "processedFacts (timeoutCallback s) = processedFacts s
   \<and> relayed (timeoutCallback s) = relayed s"
  by (simp add: timeoutCallback_def Let_def facts_handleError)

lemma facts_configurationEffect:
  "processedFacts (configurationEffect cfg s) = processedFacts s
   \<and> relayed (configurationEffect cfg s) = relayed s"
  by (simp add: configurationEffect_def facts_setErrorState)

lemma facts_begin:
  "processedFacts (snd (getClientSecretBegin cfg cur s)) = processedFacts s
   \<and> relayed (snd (getClientSecretBegin cfg cur s)) = relayed s"
  by (simp add: getClientSecretBegin_def Let_def facts_setErrorState)

lemma facts_parseBody:
  "processedFacts (snd (parseBody parse raw s)) = processedFacts s
   \<and> relayed (snd (parseBody parse raw s)) = relayed s"
  by (simp add: parseBody_def consoleError_def split: option.splits)

lemma facts_tryBody:
  "processedFacts (snd (tryBody parse outcome s)) = processedFacts s
   \<and> relayed (snd (tryBody parse outcome s)) = relayed s"
proof (cases outcome)
  case (Rejected e)
  then show ?thesis by (simp add: tryBody_def)
next
  case (Responded r)
  show ?thesis
  proof (cases "bodyText r")
    case (Inl e)
    with Responded show ?thesis by (simp add: tryBody_def)
  next
    case (Inr raw)
    obtain d s1 where pb: "parseBody parse raw s = (d, s1)"
      by (cases "parseBody parse raw s")
    then have "processedFacts s1 = processedFacts s \<and> relayed s1 = relayed s"
      using facts_parseBody [of parse raw s] by simp
    with Responded Inr pb show ?thesis
      by (simp add: tryBody_def Let_def consoleError_def facts_setErrorState
            split: option.splits)
  qed
qed

lemma facts_catchBlock:
  "processedFacts (snd (catchBlock e s)) = processedFacts s
   \<and> relayed (snd (catchBlock e s)) = relayed s"
  by (simp add: catchBlock_def Let_def consoleError_def facts_setErrorState)

lemma facts_finallyBlock:
  "processedFacts (finallyBlock cur s) = processedFacts s
   \<and> relayed (finallyBlock cur s) = relayed s"
  by (simp add: finallyBlock_def)

lemma facts_resume:
  "processedFacts (snd (getClientSecretResume parse cur outcome s)) = processedFacts s
   \<and> relayed (snd (getClientSecretResume parse cur outcome s)) = relayed s"
proof -
  obtain res s1 where tb: "tryBody parse outcome s = (res, s1)"
    by (cases "tryBody parse outcome s")
  then have s1: "processedFacts s1 = processedFacts s \<and> relayed s1 = relayed s"
    using facts_tryBody [of parse outcome s] by simp
  show ?thesis
  proof (cases res)
    case (Inr v)
    with tb s1 show ?thesis
      by (simp add: getClientSecretResume_def facts_finallyBlock)
  next
    case (Inl e)
    obtain e' s2 where cb: "catchBlock e s1 = (e', s2)"
      by (cases "catchBlock e s1")
    then have "processedFacts s2 = processedFacts s1 \<and> relayed s2 = relayed s1"
      using facts_catchBlock [of e s1] by simp
    with tb Inl cb s1 show ?thesis
      by (simp add: getClientSecretResume_def facts_finallyBlock)
  qed
qed

text \<open>What one client tool call adds.\<close>

lemma onClientTool_adds:
  "\<exists>extra. relayed (snd (onClientTool str call s)) = relayed s @ extra
     \<and> distinct (map factId extra)
     \<and> set (map factId extra) \<inter> processedFacts s = {}
     \<and> processedFacts s \<union> set (map factId extra) \<subseteq> processedFacts (snd (onClientTool str call s))"
  by (simp add: onClientTool_def Let_def) blast

lemma step_adds:
  assumes "ev \<noteq> ThreadChange" and "ev \<noteq> ResetChat"
  shows "\<exists>extra. relayed (step cfg parse str ev s) = relayed s @ extra
     \<and> distinct (map factId extra)
     \<and> set (map factId extra) \<inter> processedFacts s = {}
     \<and> processedFacts s \<union> set (map factId extra) \<subseteq> processedFacts (step cfg parse str ev s)"
proof (cases ev)
  case (ClientTool call)
  then show ?thesis using onClientTool_adds [of str call s] by (simp add: step_def)
qed (use assms in \<open>simp_all add: step_def facts_effectRerun facts_configurationEffect
      facts_readinessEffect facts_handleLoaded facts_handleError facts_timeoutCallback
      facts_begin facts_resume onResponseStart_def onResponseEnd_def onError_def
      consoleError_def facts_setErrorState\<close>)

lemma run_adds:
  "ThreadChange \<notin> set evs \<Longrightarrow> ResetChat \<notin> set evs \<Longrightarrow>
   \<exists>new. relayed (run cfg parse str evs s) = relayed s @ new
     \<and> distinct (map factId new)
     \<and> set (map factId new) \<inter> processedFacts s = {}
     \<and> processedFacts s \<union> set (map factId new) \<subseteq> processedFacts (run cfg parse str evs s)"
proof (induction evs arbitrary: s)
  case Nil
  show ?case by simp
next
  case (Cons ev evs)
  let ?s' = "step cfg parse str ev s"
  from Cons.prems have ev: "ev \<noteq> ThreadChange" "ev \<noteq> ResetChat"
    and rest: "ThreadChange \<notin> set evs" "ResetChat \<notin> set evs"
    by auto
  from step_adds [OF ev, of cfg parse str s]
  obtain extra where e: "relayed ?s' = relayed s @ extra" "distinct (map factId extra)"
      "set (map factId extra) \<inter> processedFacts s = {}"
      "processedFacts s \<union> set (map factId extra) \<subseteq> processedFacts ?s'"
    by blast
  from Cons.IH [OF rest, of ?s']
  obtain new where n: "relayed (run cfg parse str evs ?s') = relayed ?s' @ new"
      "distinct (map factId new)"
      "set (map factId new) \<inter> processedFacts ?s' = {}"
      "processedFacts ?s' \<union> set (map factId new) \<subseteq> processedFacts (run cfg parse str evs ?s')"
    by blast
  have "relayed (run cfg parse str (ev # evs) s) = relayed s @ (extra @ new)"
    using e(1) n(1) by simp
  moreover have "distinct (map factId (extra @ new))"
    using e(2) n(2) e(4) n(3) by auto
  moreover have "set (map factId (extra @ new)) \<inter> processedFacts s = {}"
    using e(3) e(4) n(3) by auto
  moreover have "processedFacts s \<union> set (map factId (extra @ new))
      \<subseteq> processedFacts (run cfg parse str (ev # evs) s)"
    using e(4) n(4) by auto
  ultimately show ?case by blast
qed














text \<open>The flags of the panel along a mount, the window events and an effect run.\<close>

lemma flags_readinessEffect:
  "isMounted (readinessEffect cfg s) = isMounted s
   \<and> registered (readinessEffect cfg s) = registered s
   \<and> listening (readinessEffect cfg s) = isBrowser cfg"
  by (simp add: readinessEffect_def handleLoaded_def setErrorState_def Let_def)







text \<open>A panel without a configured workflow keeps its configuration message.\<close>

lemma kept_setErrorState:
  "fetches (setErrorState u s) = fetches s
   \<and> session (errors (setErrorState u s))
       = (case upd_session u of None \<Rightarrow> session (errors s) | Some v \<Rightarrow> v)"
  by (simp add: setErrorState_def mergeErrors_def)

lemma kept_handleLoaded:
  "fetches (handleLoaded s) = fetches s
   \<and> session (errors (handleLoaded s)) = session (errors s)"
  by (simp add: handleLoaded_def kept_setErrorState noUpdate_def)

lemma kept_handleError:
  "fetches (handleError d s) = fetches s
   \<and> session (errors (handleError d s)) = session (errors s)"
  by (simp add: handleError_def Let_def consoleError_def kept_setErrorState noUpdate_def)

lemma kept_readinessEffect:
  "fetches (readinessEffect cfg s) = fetches s
   \<and> session (errors (readinessEffect cfg s)) = session (errors s)"
  by (simp add: readinessEffect_def Let_def kept_handleLoaded)

lemma kept_effectRerun:
  "fetches (effectRerun cfg s) = fetches s
   \<and> session (errors (effectRerun cfg s)) = session (errors s)"
  by (simp add: effectRerun_def kept_readinessEffect split: option.splits)

lemma kept_timeoutCallback:
  "fetches (timeoutCallback s) = fetches s
   \<and> session (errors (timeoutCallback s)) = session (errors s)"
  by (simp add: timeoutCallback_def Let_def kept_handleError)

lemma kept_configurationEffect:
  assumes "\<not> isWorkflowConfigured cfg"
  shows "fetches (configurationEffect cfg s) = fetches s
   \<and> session (errors (configurationEffect cfg s))
       = (if isMounted s then Some configurationMessage else session (errors s))"
  using assms by (simp add: configurationEffect_def kept_setErrorState noUpdate_def)

lemma kept_begin:
  assumes "\<not> isWorkflowConfigured cfg"
  shows "fetches (snd (getClientSecretBegin cfg cur s)) = fetches s
   \<and> session (errors (snd (getClientSecretBegin cfg cur s)))
       = (if isMounted s then Some configurationMessage else session (errors s))"
  using assms
  by (simp add: getClientSecretBegin_def Let_def kept_setErrorState noUpdate_def)

lemma kept_onClientTool:
  "fetches (snd (onClientTool str call s)) = fetches s
   \<and> session (errors (snd (onClientTool str call s))) = session (errors s)"
  by (simp add: onClientTool_def Let_def)

lemma unconfigured_step:
  assumes "\<not> isWorkflowConfigured cfg"
    and "session (errors s) = Some configurationMessage"
    and "\<not> retryable (errors s)" and "fetches s = []"
    and "enabled s ev"
  shows "session (errors (step cfg parse str ev s)) = Some configurationMessage
         \<and> \<not> retryable (errors (step cfg parse str ev s))
         \<and> fetches (step cfg parse str ev s) = []"
proof -
  have r: "\<not> retryable (errors (step cfg parse str ev s))"
    using assms(3) by (rule retryable_step)
  have "session (errors (step cfg parse str ev s)) = Some configurationMessage
        \<and> fetches (step cfg parse str ev s) = []"
  proof (cases ev)
    case Mount
    with assms(1,2,4) show ?thesis
      by (simp add: step_def kept_configurationEffect kept_readinessEffect)
  next
    case ResetChat
    with assms(3,5) show ?thesis by (simp add: enabled_def onRetry_def)
  next
    case (SecretRequested cur)
    with assms(1,2,4) show ?thesis by (simp add: step_def kept_begin)
  next
    case (SecretAnswered cur outcome)
    with assms(4,5) show ?thesis by (simp add: enabled_def)
  next
    case (ClientTool call)
    with assms(2,4) show ?thesis by (simp add: step_def kept_onClientTool)
  qed (use assms(2,4) in \<open>simp_all add: step_def kept_handleLoaded kept_handleError
        kept_effectRerun kept_timeoutCallback onResponseStart_def onResponseEnd_def
        onThreadChange_def onError_def consoleError_def kept_setErrorState noUpdate_def\<close>)
  with r show ?thesis by simp
qed

lemma unconfigured_run:
  assumes "\<not> isWorkflowConfigured cfg"
  shows "session (errors s) = Some configurationMessage \<Longrightarrow> \<not> retryable (errors s) \<Longrightarrow>
         fetches s = [] \<Longrightarrow> feasible cfg parse str evs s \<Longrightarrow>
         session (errors (run cfg parse str evs s)) = Some configurationMessage
         \<and> \<not> retryable (errors (run cfg parse str evs s))
         \<and> fetches (run cfg parse str evs s) = []"
proof (induction evs arbitrary: s)
  case Nil
  then show ?case by simp
next
  case (Cons ev evs)
  from Cons.prems(4) have en: "enabled s ev"
    and rest: "feasible cfg parse str evs (step cfg parse str ev s)"
    by simp_all
  from unconfigured_step [OF assms Cons.prems(1-3) en, of parse str]
  have "session (errors (step cfg parse str ev s)) = Some configurationMessage"
      "\<not> retryable (errors (step cfg parse str ev s))"
      "fetches (step cfg parse str ev s) = []"
    by simp_all
  from Cons.IH [OF this rest] show ?case by simp
qed

lemma unconfigured_mounted:
  assumes "\<not> isWorkflowConfigured cfg"
  shows "session (errors (step cfg parse str Mount (initialPanel cfg reg)))
           = Some configurationMessage
         \<and> \<not> retryable (errors (step cfg parse str Mount (initialPanel cfg reg)))
         \<and> fetches (step cfg parse str Mount (initialPanel cfg reg)) = []"
proof -
  have "isMounted (readinessEffect cfg (initialPanel cfg reg))"
    by (simp add: flags_readinessEffect initialPanel_def)
  moreover have "\<not> retryable (errors (initialPanel cfg reg))"
      "fetches (initialPanel cfg reg) = []"
    by (simp_all add: initialPanel_def createInitialErrors_def)
  ultimately show ?thesis
    using assms retryable_step [of "initialPanel cfg reg" cfg parse str Mount]
    by (simp add: step_def kept_configurationEffect kept_readinessEffect)
qed

text \<open>The functions of the two variants, one by one.\<close>

lemma objectMessage_v1_eq: "objectMessage_v1 = objectMessage"
  by (rule ext) (simp only: objectMessage_v1_def objectMessage_def)

lemma extractErrorDetail_v1_eq: "extractErrorDetail_v1 = extractErrorDetail"
  by (rule ext)+ (simp only: extractErrorDetail_v1_def extractErrorDetail_def objectMessage_v1_eq)

lemma handleResetChat_v1_eq: "handleResetChat_v1 = handleResetChat"
  by (rule ext)+ (simp only: handleResetChat_v1_def handleResetChat_def)

lemma getClientSecretBegin_v1_eq: "getClientSecretBegin_v1 = getClientSecretBegin"
  by (rule ext)+ (simp only: getClientSecretBegin_v1_def getClientSecretBegin_def)

lemma parseBody_v1_eq: "parseBody_v1 = parseBody"
  by (rule ext)+ (simp only: parseBody_v1_def parseBody_def)

lemma tryBody_v1_eq: "tryBody_v1 = tryBody"
  by (rule ext)+ (simp only: tryBody_v1_def tryBody_def parseBody_v1_eq extractErrorDetail_v1_eq)

lemma catchBlock_v1_eq: "catchBlock_v1 = catchBlock"
  by (rule ext)+ (simp only: catchBlock_v1_def catchBlock_def)

lemma finallyBlock_v1_eq: "finallyBlock_v1 = finallyBlock"
  by (rule ext)+ (simp only: finallyBlock_v1_def finallyBlock_def)

lemma getClientSecretResume_v1_eq: "getClientSecretResume_v1 = getClientSecretResume"
  by (rule ext)+
     (simp only: getClientSecretResume_v1_def getClientSecretResume_def tryBody_v1_eq
        catchBlock_v1_eq finallyBlock_v1_eq)

lemma activeError_v1_eq: "activeError_v1 = activeError"
  by (rule ext) (simp only: activeError_v1_def activeError_def)

section \<open>Failure messages of the session request\<close>

text \<open>
  Claim C1. Whenever the session request is answered with a status outside 200 to 299
  and a readable body, \<open>getClientSecret\<close> fails with an \<open>Error\<close> whose message is
  found by the ordered strategies on the parsed body: the string at \<open>error\<close>, at
  \<open>error.message\<close>, at \<open>details\<close>, at \<open>details.error\<close>, at
  \<open>details.error.message\<close>, at \<open>message\<close>, and the status text when none of them
  is a string. The body \<open>{"error":{"message":"quota exceeded"}}\<close> gives the message
  \<open>quota exceeded\<close>, the body \<open>{"details":{"error":"bad workflow"}}\<close> gives
  \<open>bad workflow\<close>.
\<close>

theorem getClientSecret_failure_detail:
  assumes "isWorkflowConfigured cfg" and "\<not> ok r" and "bodyText r = Inr raw"
  shows \<open>fst (getClientSecret cfg parse cur (Responded r) s) =
           Inl (Error (strategyDetail
                  (Some (case (if raw = [] then None else parse raw) of
                           Some d \<Rightarrow> d | None \<Rightarrow> JObj []))
                  (statusText r)))
         \<and> (raw = ''{"error":{"message":"quota exceeded"}}''
              \<and> parse raw = Some (JObj [(''error'', JObj [(''message'', JStr ''quota exceeded'')])])
            \<longrightarrow> fst (getClientSecret cfg parse cur (Responded r) s) =
                  Inl (Error ''quota exceeded''))
         \<and> (raw = ''{"details":{"error":"bad workflow"}}''
              \<and> parse raw = Some (JObj [(''details'', JObj [(''error'', JStr ''bad workflow'')])])
            \<longrightarrow> fst (getClientSecret cfg parse cur (Responded r) s) =
                  Inl (Error ''bad workflow''))\<close>
proof -
  have general: "fst (getClientSecret cfg parse cur (Responded r) s) =
      Inl (Error (strategyDetail (Some (payloadOf parse raw)) (statusText r)))"
    using assms by (simp add: fst_getClientSecret_responded extract_is_strategy)
  have quota: "strategyDetail
      (Some (JObj [(''error'', JObj [(''message'', JStr ''quota exceeded'')])])) fb
      = ''quota exceeded''" for fb
    by (simp add: strategyDetail_unfold asString_def)
  have workflow: "strategyDetail
      (Some (JObj [(''details'', JObj [(''error'', JStr ''bad workflow'')])])) fb
      = ''bad workflow''" for fb
    by (simp add: strategyDetail_unfold asString_def)
  show ?thesis
    unfolding general by (auto simp: payloadOf_def quota workflow)
qed

theorem getClientSecret_failure_detail_witness:
  \<open>fst (getClientSecret sampleConfig sampleParse None
          (Responded \<lparr>status = 429, statusText = ''Too Many Requests'',
                      bodyText = Inr ''{"error":{"message":"quota exceeded"}}''\<rparr>)
          (initialPanel sampleConfig True))
     = Inl (Error ''quota exceeded'')\<close>
  using getClientSecret_failure_detail
    [of sampleConfig
        \<open>\<lparr>status = 429, statusText = ''Too Many Requests'',
          bodyText = Inr ''{"error":{"message":"quota exceeded"}}''\<rparr>\<close>
        \<open>''{"error":{"message":"quota exceeded"}}''\<close> sampleParse None
        "initialPanel sampleConfig True"]
  by (simp add: configured_sample ok_def sampleParse_def strategyDetail_unfold asString_def)

section \<open>The credential of a successful answer\<close>

text \<open>
  Claim C2, as it is stated, at the body \<open>{"client_secret":""}\<close>: the answer has
  status 200 and its body contains the field \<open>client_secret\<close>, yet the call fails with
  the missing-credential message, because the empty string is not truthy.
\<close>

theorem getClientSecret_empty_secret_counterexample:
  \<open>isWorkflowConfigured sampleConfig
   \<and> ok \<lparr>status = 200, statusText = ''OK'', bodyText = Inr ''{"client_secret":""}''\<rparr>
   \<and> sampleParse ''{"client_secret":""}'' = Some (JObj [(''client_secret'', JStr [])])
   \<and> fst (getClientSecret sampleConfig sampleParse None
          (Responded \<lparr>status = 200, statusText = ''OK'',
                      bodyText = Inr ''{"client_secret":""}''\<rparr>)
          (initialPanel sampleConfig True))
       = Inl (Error ''Missing client secret in response'')\<close>
  by (simp add: configured_sample fst_getClientSecret_responded [OF configured_sample]
        ok_def sampleParse_def payloadOf_def truthy_def missingSecretMessage_def)

text \<open>
  Claim C2, amended. Whenever the session request is answered with a status from 200 to
  299 and the parsed body carries a non-empty string in its field \<open>client_secret\<close>,
  \<open>getClientSecret\<close> resolves to that string. An empty string in the field is treated
  as a missing credential.
\<close>

theorem getClientSecret_resolves:
  assumes "isWorkflowConfigured cfg" and "ok r" and "bodyText r = Inr raw"
    and "raw \<noteq> []" and "parse raw = Some d"
    and "member (Some d) ''client_secret'' = Some (JStr v)" and "v \<noteq> []"
  shows "fst (getClientSecret cfg parse cur (Responded r) s) = Inr (JStr v)"
  using assms
  by (simp add: fst_getClientSecret_responded payloadOf_def truthy_def)

theorem getClientSecret_resolves_witness:
  \<open>fst (getClientSecret sampleConfig sampleParse None
          (Responded \<lparr>status = 200, statusText = ''OK'',
                      bodyText = Inr ''{"client_secret":"sk_abc"}''\<rparr>)
          (initialPanel sampleConfig True))
     = Inr (JStr ''sk_abc'')\<close>
  using getClientSecret_resolves
    [of sampleConfig
        \<open>\<lparr>status = 200, statusText = ''OK'', bodyText = Inr ''{"client_secret":"sk_abc"}''\<rparr>\<close>
        \<open>''{"client_secret":"sk_abc"}''\<close> sampleParse
        "JObj [(''client_secret'', JStr ''sk_abc'')]" "''sk_abc''" None
        "initialPanel sampleConfig True"]
  by (simp add: configured_sample ok_def sampleParse_def)

section \<open>Answers without a credential\<close>

text \<open>
  Claim C3. Whenever the session request is answered with a status from 200 to 299 and
  the body is the empty text, or text that \<open>JSON.parse\<close> rejects, or the empty JSON
  object, \<open>getClientSecret\<close> fails with the message
  \<open>Missing client secret in response\<close>. A body that does not parse is reported with
  \<open>console.error\<close> and the payload stays the empty object; the call still returns
  its failure.
\<close>

theorem getClientSecret_missing_secret:
  assumes "isWorkflowConfigured cfg" and "ok r" and "bodyText r = Inr raw"
    and "raw = [] \<or> parse raw = None \<or> parse raw = Some (JObj [])"
  shows "fst (getClientSecret cfg parse cur (Responded r) s)
           = Inl (Error ''Missing client secret in response'')
         \<and> (raw \<noteq> [] \<and> parse raw = None \<longrightarrow>
              ''Failed to parse create-session response''
                \<in> set (errorLog (snd (getClientSecret cfg parse cur (Responded r) s))))"
proof -
  have "payloadOf parse raw = JObj []"
    using assms(4) by (auto simp: payloadOf_def)
  then have "fst (getClientSecret cfg parse cur (Responded r) s)
      = Inl (Error ''Missing client secret in response'')"
    using assms(1-3)
    by (simp add: fst_getClientSecret_responded truthy_def missingSecretMessage_def)
  moreover have "raw \<noteq> [] \<and> parse raw = None \<longrightarrow>
      ''Failed to parse create-session response''
        \<in> set (errorLog (snd (getClientSecret cfg parse cur (Responded r) s)))"
    using errorLog_resume_parse_failure [OF assms(3)]
    by (simp add: snd_getClientSecret_configured [OF assms(1)])
  ultimately show ?thesis by blast
qed

theorem getClientSecret_missing_secret_witness:
  \<open>fst (getClientSecret sampleConfig sampleParse None
          (Responded \<lparr>status = 200, statusText = ''OK'', bodyText = Inr ''<html>''\<rparr>)
          (initialPanel sampleConfig True))
     = Inl (Error ''Missing client secret in response'')
   \<and> ''Failed to parse create-session response''
       \<in> set (errorLog (snd (getClientSecret sampleConfig sampleParse None
          (Responded \<lparr>status = 200, statusText = ''OK'', bodyText = Inr ''<html>''\<rparr>)
          (initialPanel sampleConfig True))))\<close>
  using getClientSecret_missing_secret
    [of sampleConfig
        \<open>\<lparr>status = 200, statusText = ''OK'', bodyText = Inr ''<html>''\<rparr>\<close>
        \<open>''<html>''\<close> sampleParse None "initialPanel sampleConfig True"]
  by (simp add: configured_sample ok_def sampleParse_def)

section \<open>An unconfigured workflow\<close>

text \<open>
  Claim C4. If the workflow id is empty or starts with \<open>wf_replace\<close>, then
  \<open>getClientSecret\<close> throws the configuration message and issues no request, and after
  the call the session error is the configuration message and the retryable flag is
  false. This holds in every state in which \<open>isMountedRef.current\<close> is true, where the
  call writes both and clears the loading flag, and in every state the panel reaches by
  a feasible sequence of events after its mount, where the mount effect has written the
  message and nothing has removed it since.
\<close>

theorem getClientSecret_unconfigured:
  assumes "WORKFLOW_ID cfg = [] \<or> startsWith (WORKFLOW_ID cfg) ''wf_replace''"
  shows "fst (getClientSecret cfg parse cur outcome s)
           = Inl (Error ''Set NEXT_PUBLIC_CHATKIT_WORKFLOW_ID in your .env.local file.'')
         \<and> fetches (snd (getClientSecret cfg parse cur outcome s)) = fetches s
         \<and> (isMounted s
              \<or> (s = run cfg parse str evs (step cfg parse str Mount (initialPanel cfg reg))
                  \<and> feasible cfg parse str evs (step cfg parse str Mount (initialPanel cfg reg)))
            \<longrightarrow> session (errors (snd (getClientSecret cfg parse cur outcome s)))
                  = Some ''Set NEXT_PUBLIC_CHATKIT_WORKFLOW_ID in your .env.local file.''
                \<and> \<not> retryable (errors (snd (getClientSecret cfg parse cur outcome s))))
         \<and> (isMounted s \<longrightarrow>
              \<not> isInitializingSession (snd (getClientSecret cfg parse cur outcome s)))"
proof -
  from assms have u: "\<not> isWorkflowConfigured cfg"
    by (auto simp: isWorkflowConfigured_def)
  have call: "getClientSecret cfg parse cur outcome s
      = (Inl (Error configurationMessage), snd (getClientSecretBegin cfg cur s))"
    using u by (simp add: getClientSecret_def getClientSecretBegin_def Let_def)
  have thrown: "fst (getClientSecret cfg parse cur outcome s)
      = Inl (Error ''Set NEXT_PUBLIC_CHATKIT_WORKFLOW_ID in your .env.local file.'')"
    by (simp add: call configurationMessage_def)
  have sent: "fetches (snd (getClientSecret cfg parse cur outcome s)) = fetches s"
    using u by (simp add: call kept_begin)
  have mounted: "session (errors (snd (getClientSecret cfg parse cur outcome s)))
        = Some configurationMessage
      \<and> \<not> retryable (errors (snd (getClientSecret cfg parse cur outcome s)))
      \<and> \<not> isInitializingSession (snd (getClientSecret cfg parse cur outcome s))"
    if "isMounted s"
    using u that
    by (simp add: call getClientSecretBegin_def Let_def setErrorState_def mergeErrors_def
          noUpdate_def)
  have later: "session (errors (snd (getClientSecret cfg parse cur outcome s)))
        = Some configurationMessage
      \<and> \<not> retryable (errors (snd (getClientSecret cfg parse cur outcome s)))"
    if run: "s = run cfg parse str evs (step cfg parse str Mount (initialPanel cfg reg))"
      and f: "feasible cfg parse str evs (step cfg parse str Mount (initialPanel cfg reg))"
  proof -
    from unconfigured_mounted [OF u, of parse str reg]
    have "session (errors (step cfg parse str Mount (initialPanel cfg reg)))
        = Some configurationMessage"
      "\<not> retryable (errors (step cfg parse str Mount (initialPanel cfg reg)))"
      "fetches (step cfg parse str Mount (initialPanel cfg reg)) = []"
      by simp_all
    from unconfigured_run [OF u this f] run
    have k: "session (errors s) = Some configurationMessage" "\<not> retryable (errors s)"
      by simp_all
    from k(2) have "\<not> retryable (errors (snd (getClientSecretBegin cfg cur s)))"
      by (rule retryable_begin)
    with k(1) u show ?thesis
      by (simp add: call kept_begin)
  qed
  from thrown sent mounted later show ?thesis
    by (auto simp: configurationMessage_def)
qed

theorem getClientSecret_unconfigured_witness:
  "\<not> isMounted (run placeholderConfig sampleParse sampleText [Unmount]
        (step placeholderConfig sampleParse sampleText Mount
           (initialPanel placeholderConfig False)))
   \<and> fst (getClientSecret placeholderConfig sampleParse None (Rejected NotAnError)
        (run placeholderConfig sampleParse sampleText [Unmount]
           (step placeholderConfig sampleParse sampleText Mount
              (initialPanel placeholderConfig False))))
     = Inl (Error ''Set NEXT_PUBLIC_CHATKIT_WORKFLOW_ID in your .env.local file.'')
   \<and> session (errors (snd (getClientSecret placeholderConfig sampleParse None
        (Rejected NotAnError)
        (run placeholderConfig sampleParse sampleText [Unmount]
           (step placeholderConfig sampleParse sampleText Mount
              (initialPanel placeholderConfig False))))))
     = Some ''Set NEXT_PUBLIC_CHATKIT_WORKFLOW_ID in your .env.local file.''
   \<and> \<not> retryable (errors (snd (getClientSecret placeholderConfig sampleParse None
        (Rejected NotAnError)
        (run placeholderConfig sampleParse sampleText [Unmount]
           (step placeholderConfig sampleParse sampleText Mount
              (initialPanel placeholderConfig False))))))"
proof -
  let ?m = "step placeholderConfig sampleParse sampleText Mount
      (initialPanel placeholderConfig False)"
  have w: "WORKFLOW_ID placeholderConfig = []
      \<or> startsWith (WORKFLOW_ID placeholderConfig) ''wf_replace''"
    by (simp add: placeholderConfig_def sampleConfig_def startsWith_def)
  have f: "feasible placeholderConfig sampleParse sampleText [Unmount] ?m"
    by (simp add: enabled_def)
  have n: "\<not> isMounted (run placeholderConfig sampleParse sampleText [Unmount] ?m)"
    by (simp add: step_def)
  from getClientSecret_unconfigured
    [OF w, of sampleParse None "Rejected NotAnError"
       "run placeholderConfig sampleParse sampleText [Unmount] ?m"
       sampleText "[Unmount]" False] f n
  show ?thesis by simp
qed

section \<open>Precedence of the errors\<close>

text \<open>
  Claim C6. For every error record, the blocking error is a single message chosen in a
  fixed order: the script error when it is not null, otherwise the session error when
  it is not null, otherwise the integration error; it is null exactly when all three
  are null.
\<close>

theorem blockingError_priority:
  "blockingError e =
     (if script e \<noteq> None then script e
      else if session e \<noteq> None then session e
      else integration e)
   \<and> (blockingError e = None \<longleftrightarrow> script e = None \<and> session e = None \<and> integration e = None)
   \<and> (blockingError e \<noteq> None \<longleftrightarrow>
        (\<exists>m. blockingError e = Some m \<and> (\<forall>m'. blockingError e = Some m' \<longrightarrow> m' = m)))"
  by (auto simp: blockingError_def activeError_def split: option.splits)

theorem blockingError_priority_witness:
  "blockingError \<lparr>script = None, session = Some ''s'', integration = Some ''i'', retryable = False\<rparr>
     = Some ''s''
   \<and> blockingError \<lparr>script = Some ''x'', session = Some ''s'', integration = Some ''i'',
                     retryable = False\<rparr> = Some ''x''"
  using blockingError_priority
    [of "\<lparr>script = None, session = Some ''s'', integration = Some ''i'', retryable = False\<rparr>"]
    blockingError_priority
    [of "\<lparr>script = Some ''x'', session = Some ''s'', integration = Some ''i'', retryable = False\<rparr>"]
  by simp

section \<open>The reset\<close>

text \<open>
  Claim C8. \<open>handleResetChat\<close> clears the set of processed facts, puts the error
  record back to its initial value (three nulls and a false retryable flag), sets the
  loading flag, recomputes the script status from the registration of the custom
  element (in a browser), and adds one to the widget instance key; the result does not
  depend on the errors the panel held.
\<close>

theorem handleResetChat_effect:
  "processedFacts (handleResetChat cfg s) = {}
   \<and> errors (handleResetChat cfg s)
       = \<lparr>script = None, session = None, integration = None, retryable = False\<rparr>
   \<and> isInitializingSession (handleResetChat cfg s)
   \<and> scriptStatus (handleResetChat cfg s)
       = (if isBrowser cfg then (if registered s then ready else pending) else scriptStatus s)
   \<and> widgetInstanceKey (handleResetChat cfg s) = widgetInstanceKey s + 1
   \<and> handleResetChat cfg (s\<lparr>errors := e\<rparr>) = handleResetChat cfg s
   \<and> handleResetChat cfg s
       = s\<lparr>processedFacts := {}, errors := createInitialErrors,
           isInitializingSession := True,
           scriptStatus := scriptStatus (handleResetChat cfg s),
           widgetInstanceKey := widgetInstanceKey s + 1\<rparr>"
  by (simp add: handleResetChat_def Let_def createInitialErrors_def)

section \<open>The retryable flag\<close>

text \<open>
  Claim C9. In every state the panel can reach, the retryable flag of the error record
  is false, and so the overlay is given no retry handler: the initial record has the
  flag false, the three updates that set an error message (the script error, the
  session error of an unconfigured workflow, the session error of a failed request) set
  it to false, and no handler sets it to true.
\<close>

theorem retryable_never_set:
  "(reachable cfg parse str s \<longrightarrow> \<not> retryable (errors s) \<and> \<not> onRetry s)
   \<and> \<not> retryable createInitialErrors
   \<and> (isMounted s \<longrightarrow> \<not> retryable (errors (handleError d s)))
   \<and> (isMounted s \<and> \<not> isWorkflowConfigured cfg \<longrightarrow>
        \<not> retryable (errors (configurationEffect cfg s))
        \<and> \<not> retryable (errors (snd (getClientSecretBegin cfg cur s))))
   \<and> (isMounted s \<longrightarrow> \<not> retryable (errors (snd (catchBlock e s))))"
proof -
  have "reachable cfg parse str s \<longrightarrow> \<not> retryable (errors s) \<and> \<not> onRetry s"
    by (simp add: retryable_reachable onRetry_def)
  moreover have "\<not> retryable createInitialErrors"
    by (simp add: createInitialErrors_def)
  moreover have "isMounted s \<longrightarrow> \<not> retryable (errors (handleError d s))"
    by (simp add: handleError_def Let_def consoleError_def retryable_setErrorState noUpdate_def)
  moreover have "isMounted s \<and> \<not> isWorkflowConfigured cfg \<longrightarrow>
        \<not> retryable (errors (configurationEffect cfg s))
        \<and> \<not> retryable (errors (snd (getClientSecretBegin cfg cur s)))"
    by (simp add: configurationEffect_def getClientSecretBegin_def Let_def
          retryable_setErrorState noUpdate_def)
  moreover have "isMounted s \<longrightarrow> \<not> retryable (errors (snd (catchBlock e s)))"
    by (simp add: catchBlock_def Let_def consoleError_def retryable_setErrorState noUpdate_def)
  ultimately show ?thesis by blast
qed

theorem retryable_never_set_witness:
  "\<not> retryable (errors (step sampleConfig sampleParse sampleText
        (SecretAnswered None (Rejected (Error ''Failed to fetch'')))
        (initialPanel sampleConfig False)))
   \<and> \<not> onRetry (step sampleConfig sampleParse sampleText
        (SecretAnswered None (Rejected (Error ''Failed to fetch'')))
        (initialPanel sampleConfig False))
   \<and> session (errors (step sampleConfig sampleParse sampleText
        (SecretAnswered None (Rejected (Error ''Failed to fetch'')))
        (initialPanel sampleConfig False))) = Some ''Failed to fetch''"
proof -
  let ?s = "step sampleConfig sampleParse sampleText
      (SecretAnswered None (Rejected (Error ''Failed to fetch'')))
      (initialPanel sampleConfig False)"
  have r: "reachable sampleConfig sampleParse sampleText ?s"
    by (rule reachable_step) (rule reachable_initial)
  have "session (errors ?s) = Some ''Failed to fetch''"
    by (simp add: step_def getClientSecretResume_def tryBody_def catchBlock_def
          finallyBlock_def Let_def consoleError_def setErrorState_def mergeErrors_def
          noUpdate_def initialPanel_def)
  with r retryable_never_set [of sampleConfig sampleParse sampleText ?s]
  show ?thesis by simp
qed

section \<open>Facts are relayed once per thread\<close>

text \<open>
  Claim C5. For a \<open>record_fact\<close> invocation whose fact id is not empty: the first
  invocation with an id that is not yet processed relays exactly one action to
  \<open>onWidgetAction\<close> and adds the id to the processed set, and a second invocation
  with the same id relays nothing; an invocation whose id is already processed changes
  nothing; \<open>onThreadChange\<close> empties the processed set, after which the same id is
  relayed again. Over any sequence of events of one thread (no thread change and no
  reset among them) the actions relayed have pairwise different fact ids, none of which
  was processed before.
\<close>

theorem record_fact_once_per_thread:
  assumes "name call = ''record_fact''"
  shows
   "(let ident = stringOrEmpty str (map_of (params call) ''fact_id'');
         action = \<lparr>factId = ident,
                   factText = normalizeText (stringOrEmpty str (map_of (params call) ''fact_text''))\<rparr>
     in (ident \<noteq> [] \<and> ident \<notin> processedFacts s \<longrightarrow>
           onClientTool str call s
             = (True, s\<lparr>processedFacts := insert ident (processedFacts s),
                        relayed := relayed s @ [action]\<rparr>)
           \<and> relayed (snd (onClientTool str call (snd (onClientTool str call s))))
               = relayed s @ [action])
        \<and> (ident \<in> processedFacts s \<longrightarrow> onClientTool str call s = (True, s))
        \<and> processedFacts (onThreadChange s) = {}
        \<and> (ident \<noteq> [] \<longrightarrow>
             relayed (snd (onClientTool str call (onThreadChange s))) = relayed s @ [action]))
    \<and> (ThreadChange \<notin> set evs \<and> ResetChat \<notin> set evs \<longrightarrow>
         (\<exists>new. relayed (run cfg parse str evs s) = relayed s @ new
            \<and> distinct (map factId new)
            \<and> set (map factId new) \<inter> processedFacts s = {}))"
proof -
  have "ThreadChange \<notin> set evs \<and> ResetChat \<notin> set evs \<longrightarrow>
         (\<exists>new. relayed (run cfg parse str evs s) = relayed s @ new
            \<and> distinct (map factId new)
            \<and> set (map factId new) \<inter> processedFacts s = {})"
    using run_adds [of evs cfg parse str s] by blast
  moreover have "name call \<noteq> ''switch_theme''"
    using assms by simp
  ultimately show ?thesis
    using assms by (simp add: Let_def onClientTool_def onThreadChange_def)
qed

theorem record_fact_once_per_thread_witness:
  "relayed (snd (onClientTool sampleText sampleFact (initialPanel sampleConfig True)))
     = [\<lparr>factId = ''fact-1'', factText = ''likes tea''\<rparr>]
   \<and> relayed (snd (onClientTool sampleText sampleFact
        (snd (onClientTool sampleText sampleFact (initialPanel sampleConfig True)))))
     = [\<lparr>factId = ''fact-1'', factText = ''likes tea''\<rparr>]
   \<and> relayed (snd (onClientTool sampleText sampleFact (onThreadChange
        (snd (onClientTool sampleText sampleFact (initialPanel sampleConfig True))))))
     = [\<lparr>factId = ''fact-1'', factText = ''likes tea''\<rparr>,
        \<lparr>factId = ''fact-1'', factText = ''likes tea''\<rparr>]"
proof -
  let ?a = "\<lparr>factId = ''fact-1'', factText = ''likes tea''\<rparr>"
  let ?s0 = "initialPanel sampleConfig True"
  let ?s1 = "?s0\<lparr>processedFacts := {''fact-1''}, relayed := [?a]\<rparr>"
  have n: "normalizeText ''  likes   tea '' = ''likes tea''"
    by (simp add: normalizeText_def trim_def isSpace_def)
  have nm: "name sampleFact = ''record_fact''"
    by (simp add: sampleFact_def)
  have ident: "stringOrEmpty sampleText (map_of (params sampleFact) ''fact_id'') = ''fact-1''"
      "stringOrEmpty sampleText (map_of (params sampleFact) ''fact_text'') = ''  likes   tea ''"
    by (simp_all add: sampleFact_def stringOrEmpty_def)
  have one: "onClientTool sampleText sampleFact ?s0 = (True, ?s1)"
    using record_fact_once_per_thread
      [OF nm, of sampleText ?s0 "[]" sampleConfig sampleParse]
    by (simp add: Let_def ident n initialPanel_def)
  have two: "onClientTool sampleText sampleFact ?s1 = (True, ?s1)"
    using record_fact_once_per_thread
      [OF nm, of sampleText ?s1 "[]" sampleConfig sampleParse]
    by (simp add: Let_def ident n)
  have three: "relayed (snd (onClientTool sampleText sampleFact (onThreadChange ?s1)))
      = [?a, ?a]"
    using record_fact_once_per_thread
      [OF nm, of sampleText ?s1 "[]" sampleConfig sampleParse]
    by (simp add: Let_def ident n)
  show ?thesis
    by (simp add: one two three)
qed

section \<open>Script readiness and the timeout\<close>




section \<open>The two variants\<close>

text \<open>
  Claim C10. The two variants of the panel have the same behaviour: their
  \<open>getClientSecret\<close>, \<open>extractErrorDetail\<close>, \<open>onClientTool\<close>, \<open>onThreadChange\<close>,
  \<open>handleResetChat\<close> and error precedence are equal as functions, so they give the
  same results and the same state changes on every input.
\<close>

theorem variants_agree:
  "getClientSecret_v1 = getClientSecret
   \<and> extractErrorDetail_v1 = extractErrorDetail
   \<and> onClientTool_v1 = onClientTool
   \<and> onThreadChange_v1 = onThreadChange
   \<and> handleResetChat_v1 = handleResetChat
   \<and> blockingError_v1 = blockingError"
proof -
  have "getClientSecret_v1 = getClientSecret"
    by (rule ext)+
       (simp only: getClientSecret_v1_def getClientSecret_def getClientSecretBegin_v1_eq
          getClientSecretResume_v1_eq)
  moreover have "onClientTool_v1 = onClientTool"
    by (rule ext)+ (simp only: onClientTool_v1_def onClientTool_def)
  moreover have "onThreadChange_v1 = onThreadChange"
    by (rule ext) (simp only: onThreadChange_v1_def onThreadChange_def)
  moreover have "blockingError_v1 = blockingError"
    by (rule ext) (simp only: blockingError_v1_def blockingError_def activeError_v1_eq)
  ultimately show ?thesis
    by (simp only: extractErrorDetail_v1_eq handleResetChat_v1_eq simp_thms)
qed

end
